theory Spec2Isabelle
  imports Complex_Main "HOL-Library.AList" "HOL-Library.Multiset"
begin

section \<open>JavaScript values read by the handlers of src/src/App.js\<close>

text \<open>
  A value produced by \<^verbatim>\<open>JSON.parse\<close> or \<^verbatim>\<open>response.json()\<close>, plus
  \<^verbatim>\<open>undefined\<close> for a property that is not there. A number carries the value
  of the double. The pairs of \<open>JObj\<close> are the own properties of the parsed object,
  whose keys are distinct.
\<close>

datatype js_value =
    JUndefined
  | JNull
  | JBool bool
  | JNum real
  | JStr string
  | JArr "js_value list"
  | JObj "(string \<times> js_value) list"

text \<open>ToBoolean: what \<^verbatim>\<open>if (v)\<close>, \<^verbatim>\<open>a && v\<close> and \<^verbatim>\<open>v || d\<close> test.\<close>

fun truthy :: "js_value \<Rightarrow> bool" where
  "truthy JUndefined = False"
| "truthy JNull = False"
| "truthy (JBool b) = b"
| "truthy (JNum n) = (n \<noteq> 0)"
| "truthy (JStr s) = (s \<noteq> [])"
| "truthy (JArr vs) = True"
| "truthy (JObj kvs) = True"

text \<open>\<^verbatim>\<open>a || b\<close>\<close>

definition js_or :: "js_value \<Rightarrow> js_value \<Rightarrow> js_value" where
  "js_or a b = (if truthy a then a else b)"

text \<open>
  Reading a property of \<^verbatim>\<open>null\<close> or \<^verbatim>\<open>undefined\<close> throws a TypeError;
  \<open>nullish\<close> is that test. On every other value the read succeeds: \<open>get_prop\<close> gives
  the own property of an object and \<^verbatim>\<open>undefined\<close> otherwise (the handlers read
  only \<^verbatim>\<open>image_url\<close>, \<^verbatim>\<open>status\<close>, \<^verbatim>\<open>message\<close>, \<^verbatim>\<open>result\<close> and
  \<^verbatim>\<open>error\<close>, none of which a primitive, an array or Object.prototype has).
\<close>

fun nullish :: "js_value \<Rightarrow> bool" where
  "nullish JUndefined = True"
| "nullish JNull = True"
| "nullish v = False"

fun get_prop :: "js_value \<Rightarrow> string \<Rightarrow> js_value" where
  "get_prop (JObj kvs) k = (case map_of kvs k of None \<Rightarrow> JUndefined | Some v \<Rightarrow> v)"
| "get_prop v k = JUndefined"

datatype js_error = TypeError | SyntaxError | InvalidStateError | Error

section \<open>The component state and its effects\<close>

text \<open>
  An element of the \<^verbatim>\<open>images\<close> array: \<^verbatim>\<open>{ id, url }\<close> or
  \<^verbatim>\<open>{ id, error: true, message }\<close>. The url and the message are stored as the
  server's JSON gave them. A request id is a string.
\<close>

datatype image =
    ImageUrl string js_value
  | ImageError string js_value

fun image_id :: "image \<Rightarrow> string" where
  "image_id (ImageUrl i u) = i"
| "image_id (ImageError i m) = i"

datatype ready_state = CONNECTING | OPEN | CLOSING | CLOSED

text \<open>What \<^verbatim>\<open>ws.send\<close> is given: a raw text, or \<^verbatim>\<open>JSON.stringify\<close> of a value.\<close>

datatype frame = Text string | Json js_value

text \<open>
  The callback handed to \<^verbatim>\<open>setTimeout\<close> (lines 134-138 and 196-200): close the
  socket of the request, with the given arguments, if it is still open.
\<close>

datatype timer = CloseIfOpen string "nat option" "string option"

text \<open>
  The calls a handler makes, in program order. \<open>WsSend\<close> and \<open>WsClose\<close> are
  recorded when the socket transmits the frame or starts the closing handshake.
\<close>

datatype effect =
    ConsoleLog
  | ConsoleError
  | SetImages
  | SetLoadingImages
  | SetConnectionStatus string
  | WsSend string frame
  | WsClose string "nat option" "string option"
  | SetTimeout nat timer
  | HttpGet string
  | HttpPost string js_value
  | NewWebSocket string
  | Alert string

text \<open>
  The state of \<^verbatim>\<open>App\<close> (lines 4-7). \<^verbatim>\<open>loadingImages\<close> is an object from
  request id to the timestamp of the submission, kept as an association list with the
  keys in insertion order (JavaScript enumerates keys that are array indices first; the
  claims below do not depend on the order of enumeration).
\<close>

record world =
  images :: "image list"
  loadingImages :: "(string \<times> int) list"
  connectionStatus :: string
  trace :: "effect list"

definition initial_world :: world where
  "initial_world =
     \<lparr>images = [], loadingImages = [], connectionStatus = ''disconnected'', trace = []\<rparr>"

definition userId :: string where
  "userId = ''12345''"

definition status_url :: "string \<Rightarrow> string" where
  "status_url reqId = ''http://127.0.0.1:8888/status/'' @ userId @ ''/'' @ reqId"

definition ws_url :: "string \<Rightarrow> string" where
  "ws_url requestId = ''ws://127.0.0.1:8888/ws/'' @ userId @ ''/'' @ requestId"

definition generate_url :: string where
  "generate_url = ''http://127.0.0.1:8888/generate''"

definition emit :: "effect \<Rightarrow> world \<Rightarrow> world" where
  "emit e w = w\<lparr>trace := trace w @ [e]\<rparr>"

definition console_log :: "world \<Rightarrow> world" where
  "console_log w = emit ConsoleLog w"

definition console_error :: "world \<Rightarrow> world" where
  "console_error w = emit ConsoleError w"

text \<open>The state setters, called with an updater function of the previous value.\<close>

definition setImages :: "(image list \<Rightarrow> image list) \<Rightarrow> world \<Rightarrow> world" where
  "setImages f w = emit SetImages (w\<lparr>images := f (images w)\<rparr>)"

definition setLoadingImages ::
  "((string \<times> int) list \<Rightarrow> (string \<times> int) list) \<Rightarrow> world \<Rightarrow> world" where
  "setLoadingImages f w = emit SetLoadingImages (w\<lparr>loadingImages := f (loadingImages w)\<rparr>)"

definition setConnectionStatus :: "string \<Rightarrow> world \<Rightarrow> world" where
  "setConnectionStatus s w = emit (SetConnectionStatus s) (w\<lparr>connectionStatus := s\<rparr>)"

definition setTimeout :: "nat \<Rightarrow> timer \<Rightarrow> world \<Rightarrow> world" where
  "setTimeout ms t w = emit (SetTimeout ms t) w"

text \<open>
  The pair of updates that every result-carrying branch performs (lines 30-40, 45-55,
  109-119, 149-159 and 171-185), which the specification calls
  \<^verbatim>\<open>Reconciler.applyResult\<close>:
  \<^verbatim>\<open>setImages(prev => [...prev.filter(img => img.id !== reqId), entry])\<close> and then
  \<^verbatim>\<open>setLoadingImages(prev => { const s = {...prev}; delete s[reqId]; return s })\<close>.
\<close>

definition applyResult :: "image \<Rightarrow> world \<Rightarrow> world" where
  "applyResult entry w =
     (let w1 = setImages (\<lambda>prev. filter (\<lambda>img. image_id img \<noteq> image_id entry) prev @ [entry]) w
      in setLoadingImages (AList.delete (image_id entry)) w1)"

section \<open>The WebSocket interface\<close>

text \<open>
  \<^verbatim>\<open>ws.send\<close>: throws InvalidStateError while connecting, transmits when open, and
  silently drops the data when closing or closed.
\<close>

definition ws_send :: "string \<Rightarrow> frame \<Rightarrow> ready_state \<Rightarrow> world \<Rightarrow> js_error + world" where
  "ws_send requestId f ws w =
     (case ws of
        CONNECTING \<Rightarrow> Inl InvalidStateError
      | OPEN \<Rightarrow> Inr (emit (WsSend requestId f) w)
      | CLOSING \<Rightarrow> Inr w
      | CLOSED \<Rightarrow> Inr w)"

text \<open>
  \<^verbatim>\<open>ws.close\<close> with no argument, or with code 1000 and a short reason (the
  two calls of the source): nothing when closing or closed, otherwise the closing handshake
  starts.
\<close>

definition ws_close ::
  "string \<Rightarrow> nat option \<Rightarrow> string option \<Rightarrow> ready_state \<Rightarrow> world \<Rightarrow> ready_state \<times> world" where
  "ws_close requestId code reason ws w =
     (case ws of
        CLOSING \<Rightarrow> (ws, w)
      | CLOSED \<Rightarrow> (ws, w)
      | CONNECTING \<Rightarrow> (CLOSING, emit (WsClose requestId code reason) w)
      | OPEN \<Rightarrow> (CLOSING, emit (WsClose requestId code reason) w))"

fun run_timer :: "timer \<Rightarrow> ready_state \<Rightarrow> world \<Rightarrow> ready_state \<times> world" where
  "run_timer (CloseIfOpen requestId code reason) ws w =
     (if ws = OPEN then ws_close requestId code reason ws w else (ws, w))"

section \<open>The status poller (lines 10-72)\<close>

definition staleRequestIds :: "int \<Rightarrow> (string \<times> int) list \<Rightarrow> string list" where
  "staleRequestIds now loading =
     map fst (filter (\<lambda>(reqId, timestamp). now - timestamp > 12000) loading)"

text \<open>
  The outcome of \<^verbatim>\<open>fetch\<close> on the status endpoint: the promise rejects, or there
  is a response with its \<^verbatim>\<open>ok\<close> flag and what \<^verbatim>\<open>response.json()\<close> gives
  (\<open>None\<close> when it rejects).
\<close>

datatype http_result = Rejected | Response bool "js_value option"

text \<open>The \<^verbatim>\<open>try\<close> block of the loop body (lines 21-61), with the exception it ends in.\<close>

definition poll_try :: "string \<Rightarrow> http_result \<Rightarrow> world \<Rightarrow> js_error option \<times> world" where
  "poll_try reqId r w0 =
     (let w = emit (HttpGet (status_url reqId)) (console_log w0) in
      case r of
        Rejected \<Rightarrow> (Some TypeError, w)
      | Response ok body \<Rightarrow>
          if ok then
            (case body of
               None \<Rightarrow> (Some SyntaxError, w)
             | Some data \<Rightarrow>
                 if nullish data then (Some TypeError, w)
                 else if get_prop data ''status'' = JStr ''completed'' \<and> truthy (get_prop data ''result'') then
                   (None, applyResult (ImageUrl reqId (get_prop data ''result'')) (console_log w))
                 else if get_prop data ''status'' = JStr ''error'' then
                   (None, applyResult
                      (ImageError reqId (js_or (get_prop data ''error'') (JStr ''Error generating image'')))
                      (console_error w))
                 else if get_prop data ''status'' = JStr ''processing'' then
                   (None, console_log w)
                 else (None, w))
          else (None, w))"

text \<open>The loop body with its \<^verbatim>\<open>catch\<close> (lines 20-64).\<close>

definition poll_one :: "string \<Rightarrow> http_result \<Rightarrow> world \<Rightarrow> world" where
  "poll_one reqId r w =
     (case poll_try reqId r w of
        (None, w') \<Rightarrow> w'
      | (Some e, w') \<Rightarrow> console_error w')"

fun poll_loop :: "(string \<Rightarrow> http_result) \<Rightarrow> string list \<Rightarrow> world \<Rightarrow> world" where
  "poll_loop fetch [] w = w"
| "poll_loop fetch (reqId # rest) w = poll_loop fetch rest (poll_one reqId (fetch reqId) w)"

text \<open>One tick of the interval, when no other handler runs between its requests.\<close>

definition checkStaleRequests :: "int \<Rightarrow> (string \<Rightarrow> http_result) \<Rightarrow> world \<Rightarrow> world" where
  "checkStaleRequests now fetch w = poll_loop fetch (staleRequestIds now (loadingImages w)) w"

section \<open>The push-channel session (lines 74-221)\<close>

definition ready_message :: "string \<Rightarrow> frame" where
  "ready_message requestId =
     Json (JObj [(''type'', JStr ''ready''), (''request_id'', JStr requestId)])"

definition acknowledgment :: "string \<Rightarrow> string \<Rightarrow> frame" where
  "acknowledgment requestId status =
     Json (JObj [(''type'', JStr ''acknowledgment''), (''request_id'', JStr requestId),
                 (''status'', JStr status)])"

definition onopen :: "string \<Rightarrow> ready_state \<Rightarrow> world \<Rightarrow> world" where
  "onopen requestId ws w0 =
     (let w = setConnectionStatus ''connected'' (console_log w0) in
      case ws_send requestId (ready_message requestId) ws w of
        Inl e \<Rightarrow> console_error w
      | Inr w' \<Rightarrow> w')"

text \<open>
  The \<^verbatim>\<open>try\<close> block of \<^verbatim>\<open>ws.onmessage\<close> (lines 94-201) on a text message, with
  the exception it ends in. \<open>JSON_parse\<close> is the runtime's \<^verbatim>\<open>JSON.parse\<close>,
  \<open>None\<close> where it throws a SyntaxError.
\<close>

definition onmessage_try ::
  "(string \<Rightarrow> js_value option) \<Rightarrow> string \<Rightarrow> string \<Rightarrow> ready_state \<Rightarrow> world
     \<Rightarrow> js_error option \<times> ready_state \<times> world" where
  "onmessage_try JSON_parse requestId event_data ws w0 =
     (let w = console_log w0 in
      if event_data = ''pong'' \<or> event_data = ''server_ping'' then
        (case ws_send requestId (Text ''pong'') ws w of
           Inl e \<Rightarrow> (Some e, ws, w)
         | Inr w' \<Rightarrow> (None, ws, w'))
      else
        (case JSON_parse event_data of
           None \<Rightarrow> (Some SyntaxError, ws, w)
         | Some data \<Rightarrow>
             if nullish data then (Some TypeError, ws, w)
             else if truthy (get_prop data ''image_url'') then
               (let w1 = console_log w;
                    w2 = applyResult (ImageUrl requestId (get_prop data ''image_url'')) w1;
                    w3 = (case ws_send requestId (acknowledgment requestId ''received'') ws w2 of
                            Inl e \<Rightarrow> console_error w2
                          | Inr w' \<Rightarrow> console_log w');
                    w4 = setTimeout 500
                           (CloseIfOpen requestId (Some 1000) (Some ''Image received successfully'')) w3
                in (None, ws, w4))
             else if get_prop data ''status'' = JStr ''already_sent'' then
               (let w1 = console_log w;
                    w2 = emit (HttpGet (status_url requestId)) w1;
                    (ws', w3) = ws_close requestId None None ws w2
                in (None, ws', w3))
             else if get_prop data ''status'' = JStr ''error'' then
               (let w1 = console_error w;
                    w2 = applyResult
                           (ImageError requestId
                              (js_or (get_prop data ''message'')
                                 (JStr ''An error occurred during image generation''))) w1;
                    w3 = (case ws_send requestId (acknowledgment requestId ''error_received'') ws w2 of
                            Inl e \<Rightarrow> w2
                          | Inr w' \<Rightarrow> w');
                    w4 = setTimeout 200 (CloseIfOpen requestId None None) w3
                in (None, ws, w4))
             else (None, ws, w)))"

text \<open>\<^verbatim>\<open>ws.onmessage\<close>: the block above inside its \<^verbatim>\<open>catch\<close> (lines 202-204).\<close>

definition onmessage ::
  "(string \<Rightarrow> js_value option) \<Rightarrow> string \<Rightarrow> string \<Rightarrow> ready_state \<Rightarrow> world
     \<Rightarrow> ready_state \<times> world" where
  "onmessage JSON_parse requestId event_data ws w =
     (case onmessage_try JSON_parse requestId event_data ws w of
        (None, ws', w') \<Rightarrow> (ws', w')
      | (Some e, ws', w') \<Rightarrow> (ws', console_error w'))"

text \<open>
  The promise chain started by the \<^verbatim>\<open>already_sent\<close> branch (lines 145-162), run on
  the outcome of its \<^verbatim>\<open>fetch\<close>: no test of \<^verbatim>\<open>response.ok\<close>, and every rejection
  ends in the \<^verbatim>\<open>catch\<close> that logs it.
\<close>

definition already_sent_reply :: "string \<Rightarrow> http_result \<Rightarrow> world \<Rightarrow> world" where
  "already_sent_reply requestId r w =
     (case r of
        Rejected \<Rightarrow> console_error w
      | Response ok body \<Rightarrow>
          (case body of
             None \<Rightarrow> console_error w
           | Some statusData \<Rightarrow>
               if nullish statusData then console_error w
               else if get_prop statusData ''status'' = JStr ''completed''
                       \<and> truthy (get_prop statusData ''result'') then
                 applyResult (ImageUrl requestId (get_prop statusData ''result'')) w
               else w))"

definition onerror :: "string \<Rightarrow> world \<Rightarrow> world" where
  "onerror requestId w = setConnectionStatus ''error'' (console_error w)"

definition onclose :: "string \<Rightarrow> world \<Rightarrow> world" where
  "onclose requestId w = setConnectionStatus ''disconnected'' (console_log w)"

text \<open>\<^verbatim>\<open>setupWebSocket\<close>: the new socket starts in state \<open>CONNECTING\<close>.\<close>

definition setupWebSocket :: "string \<Rightarrow> world \<Rightarrow> world" where
  "setupWebSocket requestId w = emit (NewWebSocket (ws_url requestId)) w"

section \<open>Job submission (lines 223-251)\<close>

text \<open>
  The outcome of the POST: the promise rejects, or there is a response with its
  \<^verbatim>\<open>ok\<close> flag and the \<^verbatim>\<open>request_id\<close> string of its JSON body (\<open>None\<close> when
  \<^verbatim>\<open>response.json()\<close> rejects or the body cannot be destructured).
\<close>

datatype submit_result = SubmitRejected | SubmitResponse bool "string option"

definition requestImageGeneration_try ::
  "int \<Rightarrow> submit_result \<Rightarrow> world \<Rightarrow> js_error option \<times> world" where
  "requestImageGeneration_try now r w0 =
     (let w = emit (HttpPost generate_url (JObj [(''user_id'', JStr userId)])) w0 in
      case r of
        SubmitRejected \<Rightarrow> (Some TypeError, w)
      | SubmitResponse ok body \<Rightarrow>
          if \<not> ok then (Some Error, w)
          else
            (case body of
               None \<Rightarrow> (Some TypeError, w)
             | Some request_id \<Rightarrow>
                 (let w1 = console_log w;
                      w2 = setLoadingImages (AList.update request_id now) w1
                  in (None, setupWebSocket request_id w2))))"

definition requestImageGeneration :: "int \<Rightarrow> submit_result \<Rightarrow> world \<Rightarrow> world" where
  "requestImageGeneration now r w =
     (case requestImageGeneration_try now r w of
        (None, w') \<Rightarrow> w'
      | (Some e, w') \<Rightarrow>
          emit (Alert ''Failed to request image generation. Please try again.'') (console_error w'))"

section \<open>Reachable states\<close>

text \<open>
  The states the component can be in: the initial one, and the result of any handler run
  on a reachable state, for any request id, socket state, time, message and response.
\<close>

inductive reachable :: "(string \<Rightarrow> js_value option) \<Rightarrow> world \<Rightarrow> bool"
  for JSON_parse :: "string \<Rightarrow> js_value option" where
  r_init: "reachable JSON_parse initial_world"
| r_submit: "reachable JSON_parse w \<Longrightarrow> reachable JSON_parse (requestImageGeneration now r w)"
| r_open: "reachable JSON_parse w \<Longrightarrow> reachable JSON_parse (onopen requestId ws w)"
| r_message:
    "reachable JSON_parse w \<Longrightarrow>
     reachable JSON_parse (snd (onmessage JSON_parse requestId event_data ws w))"
| r_reply: "reachable JSON_parse w \<Longrightarrow> reachable JSON_parse (already_sent_reply requestId h w)"
| r_error: "reachable JSON_parse w \<Longrightarrow> reachable JSON_parse (onerror requestId w)"
| r_close: "reachable JSON_parse w \<Longrightarrow> reachable JSON_parse (onclose requestId w)"
| r_timer: "reachable JSON_parse w \<Longrightarrow> reachable JSON_parse (snd (run_timer t ws w))"
| r_poll: "reachable JSON_parse w \<Longrightarrow> reachable JSON_parse (poll_one reqId h w)"

section \<open>Observations and example inputs\<close>

text \<open>The urls of the GET requests in a trace, in the order they were issued.\<close>

fun http_gets :: "effect list \<Rightarrow> string list" where
  "http_gets [] = []"
| "http_gets (HttpGet u # es) = u # http_gets es"
| "http_gets (e # es) = http_gets es"

text \<open>
  A stand-in for \<^verbatim>\<open>JSON.parse\<close> in the examples: it decodes the three message
  texts below and rejects any other text.
\<close>

definition payload_text :: string where
  \<open>payload_text = ''{"image_url":"http://x/y.png"}''\<close>

definition error_text :: string where
  \<open>error_text = ''{"status":"error","message":"OOM"}''\<close>

definition already_sent_text :: string where
  \<open>already_sent_text = ''{"status":"already_sent"}''\<close>

definition JSON_parse_example :: "string \<Rightarrow> js_value option" where
  "JSON_parse_example s =
     (if s = payload_text then Some (JObj [(''image_url'', JStr ''http://x/y.png'')])
      else if s = error_text then Some (JObj [(''status'', JStr ''error''), (''message'', JStr ''OOM'')])
      else if s = already_sent_text then Some (JObj [(''status'', JStr ''already_sent'')])
      else None)"

text \<open>The state after the submission of job \<^verbatim>\<open>abc123\<close> at time 0.\<close>

definition submitted_world :: world where
  "submitted_world =
     requestImageGeneration 0 (SubmitResponse True (Some ''abc123'')) initial_world"

text \<open>Status responses of the pull channel.\<close>

definition status_error_OOM :: http_result where
  "status_error_OOM =
     Response True (Some (JObj [(''status'', JStr ''error''), (''error'', JStr ''OOM'')]))"

definition status_completed :: http_result where
  "status_completed =
     Response True
       (Some (JObj [(''status'', JStr ''completed''), (''result'', JStr ''http://x/y.png'')]))"

definition status_completed_empty :: http_result where
  "status_completed_empty =
     Response True (Some (JObj [(''status'', JStr ''completed''), (''result'', JStr [])]))"

text \<open>Job \<^verbatim>\<open>abc123\<close> after the poller resolved it with the error response.\<close>

definition resolved_world :: world where
  "resolved_world = poll_one ''abc123'' status_error_OOM submitted_world"

section \<open>Basic facts about the state operations\<close>

lemma emit_fields [simp]:
  "images (emit e w) = images w"
  "loadingImages (emit e w) = loadingImages w"
  "connectionStatus (emit e w) = connectionStatus w"
  "trace (emit e w) = trace w @ [e]"
  by (simp_all add: emit_def)

lemma console_fields [simp]:
  "images (console_log w) = images w"
  "loadingImages (console_log w) = loadingImages w"
  "connectionStatus (console_log w) = connectionStatus w"
  "trace (console_log w) = trace w @ [ConsoleLog]"
  "images (console_error w) = images w"
  "loadingImages (console_error w) = loadingImages w"
  "connectionStatus (console_error w) = connectionStatus w"
  "trace (console_error w) = trace w @ [ConsoleError]"
  by (simp_all add: console_log_def console_error_def)

lemma setTimeout_fields [simp]:
  "images (setTimeout ms t w) = images w"
  "loadingImages (setTimeout ms t w) = loadingImages w"
  "connectionStatus (setTimeout ms t w) = connectionStatus w"
  "trace (setTimeout ms t w) = trace w @ [SetTimeout ms t]"
  by (simp_all add: setTimeout_def)

lemma setConnectionStatus_fields [simp]:
  "images (setConnectionStatus s w) = images w"
  "loadingImages (setConnectionStatus s w) = loadingImages w"
  "connectionStatus (setConnectionStatus s w) = s"
  "trace (setConnectionStatus s w) = trace w @ [SetConnectionStatus s]"
  by (simp_all add: setConnectionStatus_def)

lemma setupWebSocket_fields [simp]:
  "images (setupWebSocket r w) = images w"
  "loadingImages (setupWebSocket r w) = loadingImages w"
  "connectionStatus (setupWebSocket r w) = connectionStatus w"
  "trace (setupWebSocket r w) = trace w @ [NewWebSocket (ws_url r)]"
  by (simp_all add: setupWebSocket_def)

lemma setLoadingImages_fields [simp]:
  "images (setLoadingImages f w) = images w"
  "loadingImages (setLoadingImages f w) = f (loadingImages w)"
  "connectionStatus (setLoadingImages f w) = connectionStatus w"
  "trace (setLoadingImages f w) = trace w @ [SetLoadingImages]"
  by (simp_all add: setLoadingImages_def)

lemma applyResult_fields [simp]:
  "images (applyResult entry w) = filter (\<lambda>img. image_id img \<noteq> image_id entry) (images w) @ [entry]"
  "loadingImages (applyResult entry w) = AList.delete (image_id entry) (loadingImages w)"
  "connectionStatus (applyResult entry w) = connectionStatus w"
  "trace (applyResult entry w) = trace w @ [SetImages, SetLoadingImages]"
  by (simp_all add: applyResult_def setImages_def setLoadingImages_def emit_def)

lemma ws_send_OPEN [simp]: "ws_send r f OPEN w = Inr (emit (WsSend r f) w)"
  by (simp add: ws_send_def)

lemma ws_close_fields [simp]:
  "images (snd (ws_close r c s ws w)) = images w"
  "loadingImages (snd (ws_close r c s ws w)) = loadingImages w"
  "connectionStatus (snd (ws_close r c s ws w)) = connectionStatus w"
  by (cases ws; simp add: ws_close_def)+

lemma run_timer_fields [simp]:
  "images (snd (run_timer t ws w)) = images w"
  "loadingImages (snd (run_timer t ws w)) = loadingImages w"
  "connectionStatus (snd (run_timer t ws w)) = connectionStatus w"
  by (cases t; simp)+

lemma truthy_not_nullish: "truthy (get_prop d k) \<Longrightarrow> \<not> nullish d"
  by (cases d) simp_all

lemma status_not_nullish: "get_prop d k = JStr s \<Longrightarrow> \<not> nullish d"
  by (cases d) simp_all

lemma requestImageGeneration_images [simp]:
  "images (requestImageGeneration now r w) = images w"
  by (cases r)
     (auto simp: requestImageGeneration_def requestImageGeneration_try_def Let_def
           split: option.splits)

lemma onopen_images [simp]: "images (onopen r ws w) = images w"
  by (cases ws) (simp_all add: onopen_def Let_def ws_send_def)

lemma onerror_images [simp]: "images (onerror r w) = images w"
  by (simp add: onerror_def)

lemma onclose_images [simp]: "images (onclose r w) = images w"
  by (simp add: onclose_def)

subsection \<open>What each handler does to the store\<close>

lemma onmessage_payload:
  assumes "event_data \<noteq> ''pong''" "event_data \<noteq> ''server_ping''"
    and "JSON_parse event_data = Some data" "truthy (get_prop data ''image_url'')"
  shows "images (snd (onmessage JSON_parse requestId event_data ws w)) =
           filter (\<lambda>img. image_id img \<noteq> requestId) (images w)
             @ [ImageUrl requestId (get_prop data ''image_url'')]"
    and "loadingImages (snd (onmessage JSON_parse requestId event_data ws w)) =
           AList.delete requestId (loadingImages w)"
  using assms truthy_not_nullish [of data "''image_url''"]
  by (cases ws; simp add: onmessage_def onmessage_try_def Let_def ws_send_def)+

lemma onmessage_error:
  assumes "event_data \<noteq> ''pong''" "event_data \<noteq> ''server_ping''"
    and "JSON_parse event_data = Some data" "\<not> truthy (get_prop data ''image_url'')"
    and "get_prop data ''status'' = JStr ''error''"
  shows "images (snd (onmessage JSON_parse requestId event_data ws w)) =
           filter (\<lambda>img. image_id img \<noteq> requestId) (images w)
             @ [ImageError requestId
                  (js_or (get_prop data ''message'')
                     (JStr ''An error occurred during image generation''))]"
    and "loadingImages (snd (onmessage JSON_parse requestId event_data ws w)) =
           AList.delete requestId (loadingImages w)"
  using assms status_not_nullish [of data "''status''"]
  by (cases ws; simp add: onmessage_def onmessage_try_def Let_def ws_send_def)+

lemma poll_one_completed:
  assumes "get_prop data ''status'' = JStr ''completed''" "truthy (get_prop data ''result'')"
  shows "images (poll_one reqId (Response True (Some data)) w) =
           filter (\<lambda>img. image_id img \<noteq> reqId) (images w)
             @ [ImageUrl reqId (get_prop data ''result'')]"
    and "loadingImages (poll_one reqId (Response True (Some data)) w) =
           AList.delete reqId (loadingImages w)"
  using assms status_not_nullish [of data "''status''"]
  by (simp_all add: poll_one_def poll_try_def Let_def)

lemma poll_one_error:
  assumes "get_prop data ''status'' = JStr ''error''"
  shows "images (poll_one reqId (Response True (Some data)) w) =
           filter (\<lambda>img. image_id img \<noteq> reqId) (images w)
             @ [ImageError reqId (js_or (get_prop data ''error'') (JStr ''Error generating image''))]"
    and "loadingImages (poll_one reqId (Response True (Some data)) w) =
           AList.delete reqId (loadingImages w)"
  using assms status_not_nullish [of data "''status''"]
  by (simp_all add: poll_one_def poll_try_def Let_def)

lemma already_sent_reply_completed:
  assumes "get_prop statusData ''status'' = JStr ''completed''"
    and "truthy (get_prop statusData ''result'')"
  shows "already_sent_reply requestId (Response ok (Some statusData)) w =
           applyResult (ImageUrl requestId (get_prop statusData ''result'')) w"
  using assms status_not_nullish [of statusData "''status''"]
  by (simp add: already_sent_reply_def)

lemma already_sent_reply_other:
  assumes "\<forall>ok statusData. r = Response ok (Some statusData) \<longrightarrow>
             \<not> (get_prop statusData ''status'' = JStr ''completed''
                \<and> truthy (get_prop statusData ''result''))"
  shows "images (already_sent_reply requestId r w) = images w"
    and "loadingImages (already_sent_reply requestId r w) = loadingImages w"
  using assms
  by (cases r; auto simp: already_sent_reply_def split: option.splits)+

text \<open>A handler leaves the result list alone or replaces the entry of its own job.\<close>

lemma onmessage_images_cases:
  "images (snd (onmessage P r ev ws w)) = images w
   \<or> (\<exists>e. image_id e = r \<and>
        images (snd (onmessage P r ev ws w)) =
          filter (\<lambda>img. image_id img \<noteq> r) (images w) @ [e])"
  by (cases ws)
     (auto simp: onmessage_def onmessage_try_def Let_def ws_send_def ws_close_def
           split: option.splits)

lemma poll_one_images_cases:
  "images (poll_one r h w) = images w
   \<or> (\<exists>e. image_id e = r \<and>
        images (poll_one r h w) = filter (\<lambda>img. image_id img \<noteq> r) (images w) @ [e])"
  by (cases h)
     (auto simp: poll_one_def poll_try_def Let_def split: option.splits)

lemma already_sent_reply_images_cases:
  "images (already_sent_reply r h w) = images w
   \<or> (\<exists>e. image_id e = r \<and>
        images (already_sent_reply r h w) = filter (\<lambda>img. image_id img \<noteq> r) (images w) @ [e])"
  by (cases h)
     (auto simp: already_sent_reply_def Let_def split: option.splits)

text \<open>A handler leaves the loading set alone or deletes the key of its own job.\<close>

lemma onmessage_loading_cases:
  "loadingImages (snd (onmessage P r ev ws w)) = loadingImages w
   \<or> loadingImages (snd (onmessage P r ev ws w)) = AList.delete r (loadingImages w)"
  by (cases ws)
     (auto simp: onmessage_def onmessage_try_def Let_def ws_send_def ws_close_def
           split: option.splits)

lemma poll_one_loading_cases:
  "loadingImages (poll_one r h w) = loadingImages w
   \<or> loadingImages (poll_one r h w) = AList.delete r (loadingImages w)"
  by (cases h)
     (auto simp: poll_one_def poll_try_def Let_def split: option.splits)

lemma already_sent_reply_loading_cases:
  "loadingImages (already_sent_reply r h w) = loadingImages w
   \<or> loadingImages (already_sent_reply r h w) = AList.delete r (loadingImages w)"
  by (cases h)
     (auto simp: already_sent_reply_def Let_def split: option.splits)

lemma reachable_distinct_ids: "reachable P w \<Longrightarrow> distinct (map image_id (images w))"
proof (induction rule: reachable.induct)
  case r_init
  show ?case by (simp add: initial_world_def)
next
  case (r_message w requestId event_data ws)
  then show ?case
    using onmessage_images_cases [of P requestId event_data ws w]
    by (auto simp: distinct_map_filter)
next
  case (r_reply w requestId h)
  then show ?case
    using already_sent_reply_images_cases [of requestId h w]
    by (auto simp: distinct_map_filter)
next
  case (r_poll w reqId h)
  then show ?case
    using poll_one_images_cases [of reqId h w]
    by (auto simp: distinct_map_filter)
qed simp_all

text \<open>The keys of the loading set stay distinct, as the keys of an object are.\<close>

lemma requestImageGeneration_loading_cases:
  "loadingImages (requestImageGeneration now r w) = loadingImages w
   \<or> (\<exists>request_id.
        loadingImages (requestImageGeneration now r w) =
          AList.update request_id now (loadingImages w))"
  by (cases r)
     (auto simp: requestImageGeneration_def requestImageGeneration_try_def Let_def
           split: option.splits)

lemma onopen_loading [simp]: "loadingImages (onopen r ws w) = loadingImages w"
  by (cases ws) (simp_all add: onopen_def Let_def ws_send_def)

lemma onerror_loading [simp]: "loadingImages (onerror r w) = loadingImages w"
  by (simp add: onerror_def)

lemma onclose_loading [simp]: "loadingImages (onclose r w) = loadingImages w"
  by (simp add: onclose_def)

lemma reachable_distinct_loading:
  "reachable P w \<Longrightarrow> distinct (map fst (loadingImages w))"
proof (induction rule: reachable.induct)
  case r_init
  show ?case by (simp add: initial_world_def)
next
  case (r_submit w now r)
  then show ?case
    using requestImageGeneration_loading_cases [of now r w]
    by (auto simp: AList.distinct_update)
next
  case (r_message w requestId event_data ws)
  then show ?case
    using onmessage_loading_cases [of P requestId event_data ws w]
    by (auto simp: AList.distinct_delete)
next
  case (r_reply w requestId h)
  then show ?case
    using already_sent_reply_loading_cases [of requestId h w]
    by (auto simp: AList.distinct_delete)
next
  case (r_poll w reqId h)
  then show ?case
    using poll_one_loading_cases [of reqId h w]
    by (auto simp: AList.distinct_delete)
qed simp_all

lemma distinct_count_le_1:
  "distinct (map f xs) \<Longrightarrow> length (filter (\<lambda>x. f x = a) xs) \<le> 1"
  by (induction xs) (auto simp: filter_empty_conv image_iff)

lemma reachable_poll_loop:
  "reachable P w \<Longrightarrow> reachable P (poll_loop fetch ids w)"
  by (induction ids arbitrary: w) (auto intro: reachable.r_poll)

lemma reachable_checkStaleRequests:
  "reachable P w \<Longrightarrow> reachable P (checkStaleRequests now fetch w)"
  by (simp add: checkStaleRequests_def reachable_poll_loop)

lemma http_gets_append [simp]: "http_gets (xs @ ys) = http_gets xs @ http_gets ys"
  by (induction xs rule: http_gets.induct) simp_all

lemma http_gets_poll_one:
  "http_gets (trace (poll_one reqId h w)) = http_gets (trace w) @ [status_url reqId]"
  by (cases h)
     (auto simp: poll_one_def poll_try_def Let_def split: option.splits)

lemma http_gets_poll_loop:
  "http_gets (trace (poll_loop fetch ids w)) = http_gets (trace w) @ map status_url ids"
  by (induction ids arbitrary: w) (simp_all add: http_gets_poll_one)

subsection \<open>The example inputs\<close>

lemma submitted_world_store:
  "images submitted_world = []" "loadingImages submitted_world = [(''abc123'', 0)]"
  by (simp_all add: submitted_world_def requestImageGeneration_def
        requestImageGeneration_try_def Let_def initial_world_def)

lemma resolved_world_store:
  "images resolved_world = [ImageError ''abc123'' (JStr ''OOM'')]"
  "loadingImages resolved_world = []"
  by (simp_all add: resolved_world_def status_error_OOM_def poll_one_def poll_try_def Let_def
        js_or_def submitted_world_store)

lemma JSON_parse_example_simps:
  "JSON_parse_example payload_text = Some (JObj [(''image_url'', JStr ''http://x/y.png'')])"
  "JSON_parse_example error_text = Some (JObj [(''status'', JStr ''error''), (''message'', JStr ''OOM'')])"
  "JSON_parse_example already_sent_text = Some (JObj [(''status'', JStr ''already_sent'')])"
  "payload_text \<noteq> ''pong''" "payload_text \<noteq> ''server_ping''"
  "error_text \<noteq> ''pong''" "error_text \<noteq> ''server_ping''"
  "already_sent_text \<noteq> ''pong''" "already_sent_text \<noteq> ''server_ping''"
  by (simp_all add: JSON_parse_example_def payload_text_def error_text_def already_sent_text_def)

lemma onmessage_result:
  assumes "event_data \<noteq> ''pong''" "event_data \<noteq> ''server_ping''"
    and "JSON_parse event_data = Some data"
    and "truthy (get_prop data ''image_url'') \<or> get_prop data ''status'' = JStr ''error''"
  shows "images (snd (onmessage JSON_parse requestId event_data ws w)) =
           filter (\<lambda>img. image_id img \<noteq> requestId) (images w)
             @ [if truthy (get_prop data ''image_url'')
                then ImageUrl requestId (get_prop data ''image_url'')
                else ImageError requestId
                       (js_or (get_prop data ''message'')
                          (JStr ''An error occurred during image generation''))]"
  using assms onmessage_payload(1) [of event_data JSON_parse data requestId ws w]
    onmessage_error(1) [of event_data JSON_parse data requestId ws w]
  by (cases "truthy (get_prop data ''image_url'')") simp_all

section \<open>The claims\<close>

text \<open>
  C5. A poll tick at time \<open>now\<close> selects exactly the jobs whose loading entry satisfies
  \<open>now - startedAt > 12000\<close>: a job at or below the threshold is not selected, a job
  above it is selected at this and at every later tick while its entry is in the loading
  set, and the status queries of the tick are those of the selected jobs, one for each.
\<close>

theorem stale_selection:
  "(reqId \<in> set (staleRequestIds now loading) \<longleftrightarrow>
      (\<exists>startedAt. (reqId, startedAt) \<in> set loading \<and> now - startedAt > 12000))
   \<and> (distinct (map fst loading) \<and> (reqId, t) \<in> set loading \<and> now - t \<le> 12000 \<longrightarrow>
        reqId \<notin> set (staleRequestIds now loading))
   \<and> ((reqId, t) \<in> set loading \<and> now - t > 12000 \<and> now \<le> now' \<and> (reqId, t) \<in> set loading' \<longrightarrow>
        reqId \<in> set (staleRequestIds now' loading'))
   \<and> mset (http_gets (trace (checkStaleRequests now fetch w))) =
        mset (http_gets (trace w)) + mset (map status_url (staleRequestIds now (loadingImages w)))"
proof -
  have sel: "\<And>n l. reqId \<in> set (staleRequestIds n l) \<longleftrightarrow>
      (\<exists>startedAt. (reqId, startedAt) \<in> set l \<and> n - startedAt > 12000)"
    by (force simp: staleRequestIds_def)
  have young: "reqId \<notin> set (staleRequestIds now loading)"
    if "distinct (map fst loading)" "(reqId, t) \<in> set loading" "now - t \<le> 12000"
  proof
    assume "reqId \<in> set (staleRequestIds now loading)"
    then obtain s where s: "(reqId, s) \<in> set loading" "now - s > 12000"
      using sel by blast
    from that(1,2) s(1) have "s = t" by (metis eq_key_imp_eq_value)
    with s(2) that(3) show False by simp
  qed
  have old: "reqId \<in> set (staleRequestIds now' loading')"
    if "(reqId, t) \<in> set loading'" "now - t > 12000" "now \<le> now'"
  proof -
    from that have "now' - t > 12000" by simp
    with that(1) show ?thesis using sel by blast
  qed
  have gets: "mset (http_gets (trace (checkStaleRequests now fetch w))) =
        mset (http_gets (trace w)) + mset (map status_url (staleRequestIds now (loadingImages w)))"
    by (simp add: checkStaleRequests_def http_gets_poll_loop)
  from sel young old gets show ?thesis by blast
qed

theorem stale_selection_witness:
  "staleRequestIds 13000 [(''abc123'', 0), (''def456'', 5000)] = [''abc123'']
   \<and> ''abc123'' \<in> set (staleRequestIds 13000 [(''abc123'', 0), (''def456'', 5000)])
   \<and> ''def456'' \<notin> set (staleRequestIds 13000 [(''abc123'', 0), (''def456'', 5000)])
   \<and> ''abc123'' \<in> set (staleRequestIds 16000 [(''abc123'', 0), (''def456'', 5000)])"
  using stale_selection [of "''def456''" 13000 "[(''abc123'', 0), (''def456'', 5000)]" 5000 13000 "[]" "\<lambda>_. Rejected" initial_world]
    stale_selection [of "''abc123''" 13000 "[(''abc123'', 0), (''def456'', 5000)]" 0 16000 "[(''abc123'', 0), (''def456'', 5000)]" "\<lambda>_. Rejected" initial_world]
  by (simp add: staleRequestIds_def)

text \<open>
  C3. In every reachable state, whatever handlers ran before (submission, push payload,
  push error, poll success, poll error, the reply to an \<^verbatim>\<open>already_sent\<close> query),
  the result list holds at most one entry for any job id.
\<close>

theorem at_most_one_result_per_job:
  "reachable JSON_parse w \<Longrightarrow>
   length (filter (\<lambda>img. image_id img = jobId) (images w)) \<le> 1"
  by (rule distinct_count_le_1) (rule reachable_distinct_ids)

theorem at_most_one_result_per_job_witness:
  "reachable JSON_parse_example
     (snd (onmessage JSON_parse_example ''abc123'' payload_text OPEN
        (poll_one ''abc123'' status_error_OOM submitted_world)))
   \<and> length (filter (\<lambda>img. image_id img = ''abc123'')
        (images (snd (onmessage JSON_parse_example ''abc123'' payload_text OPEN
           (poll_one ''abc123'' status_error_OOM submitted_world))))) \<le> 1"
proof -
  have r: "reachable JSON_parse_example
     (snd (onmessage JSON_parse_example ''abc123'' payload_text OPEN
        (poll_one ''abc123'' status_error_OOM submitted_world)))"
    unfolding submitted_world_def
    by (intro reachable.r_message reachable.r_poll reachable.r_submit reachable.r_init)
  from r at_most_one_result_per_job [OF r, of "''abc123''"] show ?thesis by simp
qed

text \<open>
  C9. On an open socket, the raw ping text \<^verbatim>\<open>server_ping\<close> (and the text
  \<^verbatim>\<open>pong\<close>) is answered by sending the raw string \<^verbatim>\<open>pong\<close> on the same
  connection; the connection stays open and the result list and the loading set do not
  change.
\<close>

theorem ping_answered_with_pong:
  assumes "event_data = ''server_ping'' \<or> event_data = ''pong''"
  shows "fst (onmessage JSON_parse requestId event_data OPEN w) = OPEN
    \<and> trace (snd (onmessage JSON_parse requestId event_data OPEN w)) =
        trace w @ [ConsoleLog, WsSend requestId (Text ''pong'')]
    \<and> images (snd (onmessage JSON_parse requestId event_data OPEN w)) = images w
    \<and> loadingImages (snd (onmessage JSON_parse requestId event_data OPEN w)) = loadingImages w"
  using assms by (auto simp: onmessage_def onmessage_try_def Let_def)

theorem ping_answered_with_pong_witness:
  "fst (onmessage JSON_parse_example ''abc123'' ''server_ping'' OPEN submitted_world) = OPEN
    \<and> trace (snd (onmessage JSON_parse_example ''abc123'' ''server_ping'' OPEN submitted_world)) =
        trace submitted_world @ [ConsoleLog, WsSend ''abc123'' (Text ''pong'')]
    \<and> images (snd (onmessage JSON_parse_example ''abc123'' ''server_ping'' OPEN submitted_world)) = []
    \<and> loadingImages (snd (onmessage JSON_parse_example ''abc123'' ''server_ping'' OPEN submitted_world)) =
        [(''abc123'', 0)]"
proof -
  have s: "images submitted_world = []" "loadingImages submitted_world = [(''abc123'', 0)]"
    by (simp_all add: submitted_world_def requestImageGeneration_def
          requestImageGeneration_try_def Let_def initial_world_def)
  show ?thesis
    using ping_answered_with_pong [of "''server_ping''" JSON_parse_example "''abc123''" submitted_world]
    by (simp add: s)
qed

text \<open>
  C7. A message that is not a heartbeat and that \<^verbatim>\<open>JSON.parse\<close> rejects makes the
  body of the handler throw a SyntaxError, which the handler's \<^verbatim>\<open>catch\<close> logs: the
  handler returns normally, the socket keeps its state, nothing is sent, closed or
  scheduled, and the result list and the loading set do not change.
\<close>

theorem undecodable_message_ignored:
  assumes "event_data \<noteq> ''pong''" "event_data \<noteq> ''server_ping''"
    and "JSON_parse event_data = None"
  shows "onmessage_try JSON_parse requestId event_data ws w = (Some SyntaxError, ws, console_log w)
    \<and> onmessage JSON_parse requestId event_data ws w = (ws, console_error (console_log w))
    \<and> fst (onmessage JSON_parse requestId event_data ws w) = ws
    \<and> trace (snd (onmessage JSON_parse requestId event_data ws w)) =
        trace w @ [ConsoleLog, ConsoleError]
    \<and> images (snd (onmessage JSON_parse requestId event_data ws w)) = images w
    \<and> loadingImages (snd (onmessage JSON_parse requestId event_data ws w)) = loadingImages w"
  using assms by (simp add: onmessage_def onmessage_try_def Let_def)

theorem undecodable_message_ignored_witness:
  "''not json'' \<noteq> ''pong'' \<and> ''not json'' \<noteq> ''server_ping''
    \<and> JSON_parse_example ''not json'' = None
    \<and> onmessage JSON_parse_example ''abc123'' ''not json'' OPEN submitted_world =
        (OPEN, console_error (console_log submitted_world))
    \<and> images (snd (onmessage JSON_parse_example ''abc123'' ''not json'' OPEN submitted_world)) = []
    \<and> loadingImages (snd (onmessage JSON_parse_example ''abc123'' ''not json'' OPEN submitted_world)) =
        [(''abc123'', 0)]"
proof -
  have s: "images submitted_world = []" "loadingImages submitted_world = [(''abc123'', 0)]"
    by (simp_all add: submitted_world_def requestImageGeneration_def
          requestImageGeneration_try_def Let_def initial_world_def)
  have p: "JSON_parse_example ''not json'' = None"
    by (simp add: JSON_parse_example_def payload_text_def error_text_def already_sent_text_def)
  show ?thesis
    using undecodable_message_ignored [of "''not json''" JSON_parse_example "''abc123''" OPEN submitted_world] p
    by (simp add: s)
qed

text \<open>
  C8. When the submission request is rejected or answered with a status that is not ok,
  the user gets the alert and no job is created: no loading entry, no socket, and the
  result list, the loading set and the connection status are as before.
\<close>

theorem failed_submission_creates_no_job:
  assumes "r = SubmitRejected \<or> r = SubmitResponse False body"
  shows "images (requestImageGeneration now r w) = images w
    \<and> loadingImages (requestImageGeneration now r w) = loadingImages w
    \<and> connectionStatus (requestImageGeneration now r w) = connectionStatus w
    \<and> trace (requestImageGeneration now r w) =
        trace w @ [HttpPost generate_url (JObj [(''user_id'', JStr userId)]), ConsoleError,
                   Alert ''Failed to request image generation. Please try again.'']"
  using assms
  by (auto simp: requestImageGeneration_def requestImageGeneration_try_def Let_def)

theorem failed_submission_creates_no_job_witness:
  "images (requestImageGeneration 7 (SubmitResponse False (Some ''abc123'')) initial_world) = []
    \<and> loadingImages (requestImageGeneration 7 (SubmitResponse False (Some ''abc123'')) initial_world) = []
    \<and> trace (requestImageGeneration 7 (SubmitResponse False (Some ''abc123'')) initial_world) =
        [HttpPost ''http://127.0.0.1:8888/generate'' (JObj [(''user_id'', JStr ''12345'')]),
         ConsoleError, Alert ''Failed to request image generation. Please try again.'']
    \<and> loadingImages (requestImageGeneration 7 (SubmitResponse True (Some ''abc123'')) initial_world) =
        [(''abc123'', 7)]"
proof -
  have ok: "loadingImages (requestImageGeneration 7 (SubmitResponse True (Some ''abc123'')) initial_world) =
        [(''abc123'', 7)]"
    by (simp add: requestImageGeneration_def requestImageGeneration_try_def Let_def
          initial_world_def)
  show ?thesis
    using failed_submission_creates_no_job
      [of "SubmitResponse False (Some ''abc123'')" "Some ''abc123''" 7 initial_world] ok
    by (simp add: initial_world_def generate_url_def userId_def)
qed

text \<open>
  C1, as the code has it. There is no test for a loading entry: a result that arrives for a
  job without one is applied like any other. The loading set is unchanged, and the result
  list loses whatever entry the job had and gets the new entry at its end. This holds for
  a push payload, a push error, a poll success and a poll error.
\<close>

theorem result_without_loading_entry:
  assumes "requestId \<notin> fst ` set (loadingImages w)"
  shows
    "loadingImages (snd (onmessage JSON_parse requestId event_data ws w)) = loadingImages w
     \<and> loadingImages (poll_one requestId h w) = loadingImages w
     \<and> loadingImages (already_sent_reply requestId h w) = loadingImages w
     \<and> (event_data \<noteq> ''pong'' \<and> event_data \<noteq> ''server_ping''
          \<and> JSON_parse event_data = Some data \<and> truthy (get_prop data ''image_url'') \<longrightarrow>
        images (snd (onmessage JSON_parse requestId event_data ws w)) =
          filter (\<lambda>img. image_id img \<noteq> requestId) (images w)
            @ [ImageUrl requestId (get_prop data ''image_url'')])
     \<and> (event_data \<noteq> ''pong'' \<and> event_data \<noteq> ''server_ping''
          \<and> JSON_parse event_data = Some data \<and> \<not> truthy (get_prop data ''image_url'')
          \<and> get_prop data ''status'' = JStr ''error'' \<longrightarrow>
        images (snd (onmessage JSON_parse requestId event_data ws w)) =
          filter (\<lambda>img. image_id img \<noteq> requestId) (images w)
            @ [ImageError requestId
                 (js_or (get_prop data ''message'')
                    (JStr ''An error occurred during image generation''))])
     \<and> (get_prop statusData ''status'' = JStr ''completed''
          \<and> truthy (get_prop statusData ''result'') \<longrightarrow>
        images (poll_one requestId (Response True (Some statusData)) w) =
          filter (\<lambda>img. image_id img \<noteq> requestId) (images w)
            @ [ImageUrl requestId (get_prop statusData ''result'')])
     \<and> (get_prop statusData ''status'' = JStr ''error'' \<longrightarrow>
        images (poll_one requestId (Response True (Some statusData)) w) =
          filter (\<lambda>img. image_id img \<noteq> requestId) (images w)
            @ [ImageError requestId
                 (js_or (get_prop statusData ''error'') (JStr ''Error generating image''))])"
proof -
  from assms have d: "AList.delete requestId (loadingImages w) = loadingImages w"
    by simp
  have l1: "loadingImages (snd (onmessage JSON_parse requestId event_data ws w)) = loadingImages w"
    using onmessage_loading_cases [of JSON_parse requestId event_data ws w] d by auto
  have l2: "loadingImages (poll_one requestId h w) = loadingImages w"
    using poll_one_loading_cases [of requestId h w] d by auto
  have l3: "loadingImages (already_sent_reply requestId h w) = loadingImages w"
    using already_sent_reply_loading_cases [of requestId h w] d by auto
  show ?thesis
    using l1 l2 l3 onmessage_payload(1) [of event_data JSON_parse data requestId ws w]
      onmessage_error(1) [of event_data JSON_parse data requestId ws w]
      poll_one_completed(1) [of statusData requestId w]
      poll_one_error(1) [of statusData requestId w]
    by blast
qed

theorem result_without_loading_entry_witness:
  "''abc123'' \<notin> fst ` set (loadingImages resolved_world)
   \<and> loadingImages (snd (onmessage JSON_parse_example ''abc123'' payload_text OPEN resolved_world)) = []
   \<and> images (snd (onmessage JSON_parse_example ''abc123'' payload_text OPEN resolved_world)) =
       [ImageUrl ''abc123'' (JStr ''http://x/y.png'')]"
  using result_without_loading_entry [of "''abc123''" resolved_world JSON_parse_example
      payload_text OPEN Rejected "JObj [(''image_url'', JStr ''http://x/y.png'')]" JNull]
  by (simp add: resolved_world_store JSON_parse_example_simps)

text \<open>
  C1 as stated fails: job \<^verbatim>\<open>abc123\<close> was resolved by the poller with an error and has
  no loading entry; a push payload for it then replaces the error entry by a success
  entry, so the call is not a no-op.
\<close>

theorem resolved_job_counterexample:
  "''abc123'' \<notin> fst ` set (loadingImages resolved_world)
   \<and> images resolved_world = [ImageError ''abc123'' (JStr ''OOM'')]
   \<and> images (snd (onmessage JSON_parse_example ''abc123'' payload_text OPEN resolved_world)) =
       [ImageUrl ''abc123'' (JStr ''http://x/y.png'')]
   \<and> images (snd (onmessage JSON_parse_example ''abc123'' payload_text OPEN resolved_world)) \<noteq>
       images resolved_world"
  using onmessage_payload(1) [of payload_text JSON_parse_example
      "JObj [(''image_url'', JStr ''http://x/y.png'')]" "''abc123''" OPEN resolved_world]
  by (simp add: resolved_world_store JSON_parse_example_simps)

text \<open>
  C2, as the code has it. Applying a result \<open>r1\<close> and then a result \<open>r2\<close> for the same
  job leaves exactly one entry for that job, and that entry is \<open>r2\<close>, the result of the
  second call; the job has no loading entry afterwards. The same holds for two push
  messages that each carry a payload or an error.
\<close>

theorem last_result_wins:
  assumes "image_id r1 = jobId" "image_id r2 = jobId"
  shows
    "filter (\<lambda>img. image_id img = jobId) (images (applyResult r2 (applyResult r1 w))) = [r2]
     \<and> jobId \<notin> fst ` set (loadingImages (applyResult r2 (applyResult r1 w)))
     \<and> (e1 \<noteq> ''pong'' \<and> e1 \<noteq> ''server_ping'' \<and> e2 \<noteq> ''pong'' \<and> e2 \<noteq> ''server_ping''
          \<and> JSON_parse e1 = Some d1 \<and> JSON_parse e2 = Some d2
          \<and> (truthy (get_prop d1 ''image_url'') \<or> get_prop d1 ''status'' = JStr ''error'')
          \<and> (truthy (get_prop d2 ''image_url'') \<or> get_prop d2 ''status'' = JStr ''error'') \<longrightarrow>
        filter (\<lambda>img. image_id img = jobId)
          (images (snd (onmessage JSON_parse jobId e2 ws2
             (snd (onmessage JSON_parse jobId e1 ws1 w))))) =
          [if truthy (get_prop d2 ''image_url'')
           then ImageUrl jobId (get_prop d2 ''image_url'')
           else ImageError jobId
                  (js_or (get_prop d2 ''message'')
                     (JStr ''An error occurred during image generation''))])"
proof -
  have a: "filter (\<lambda>img. image_id img = jobId) (images (applyResult r2 (applyResult r1 w))) = [r2]"
    using assms by (simp add: filter_empty_conv)
  have b: "jobId \<notin> fst ` set (loadingImages (applyResult r2 (applyResult r1 w)))"
    using assms AList.delete_notin_dom [of jobId] by simp
  have c: "filter (\<lambda>img. image_id img = jobId)
          (images (snd (onmessage JSON_parse jobId e2 ws2
             (snd (onmessage JSON_parse jobId e1 ws1 w))))) =
          [if truthy (get_prop d2 ''image_url'')
           then ImageUrl jobId (get_prop d2 ''image_url'')
           else ImageError jobId
                  (js_or (get_prop d2 ''message'')
                     (JStr ''An error occurred during image generation''))]"
    if "e2 \<noteq> ''pong''" "e2 \<noteq> ''server_ping''" "JSON_parse e2 = Some d2"
      "truthy (get_prop d2 ''image_url'') \<or> get_prop d2 ''status'' = JStr ''error''"
    using onmessage_result [of e2 JSON_parse d2 jobId ws2
        "snd (onmessage JSON_parse jobId e1 ws1 w)", OF that]
    by (simp add: filter_empty_conv)
  from a b c show ?thesis by blast
qed

theorem last_result_wins_witness:
  "filter (\<lambda>img. image_id img = ''abc123'')
     (images (applyResult (ImageError ''abc123'' (JStr ''OOM''))
        (applyResult (ImageUrl ''abc123'' (JStr ''http://x/y.png'')) submitted_world))) =
     [ImageError ''abc123'' (JStr ''OOM'')]
   \<and> loadingImages (applyResult (ImageError ''abc123'' (JStr ''OOM''))
        (applyResult (ImageUrl ''abc123'' (JStr ''http://x/y.png'')) submitted_world)) = []
   \<and> filter (\<lambda>img. image_id img = ''abc123'')
        (images (snd (onmessage JSON_parse_example ''abc123'' payload_text OPEN
           (snd (onmessage JSON_parse_example ''abc123'' error_text OPEN submitted_world))))) =
        [ImageUrl ''abc123'' (JStr ''http://x/y.png'')]"
  using last_result_wins [of "ImageUrl ''abc123'' (JStr ''http://x/y.png'')" "''abc123''"
      "ImageError ''abc123'' (JStr ''OOM'')" submitted_world error_text payload_text
      JSON_parse_example "JObj [(''status'', JStr ''error''), (''message'', JStr ''OOM'')]"
      "JObj [(''image_url'', JStr ''http://x/y.png'')]" OPEN OPEN]
  by (simp add: submitted_world_store JSON_parse_example_simps)

text \<open>
  C2 as stated fails: after a push payload and then a push error for job
  \<^verbatim>\<open>abc123\<close>, the only entry is the error, not the payload that came first.
\<close>

theorem first_result_counterexample:
  "images (snd (onmessage JSON_parse_example ''abc123'' error_text OPEN
      (snd (onmessage JSON_parse_example ''abc123'' payload_text OPEN submitted_world)))) =
     [ImageError ''abc123'' (JStr ''OOM'')]
   \<and> images (snd (onmessage JSON_parse_example ''abc123'' error_text OPEN
      (snd (onmessage JSON_parse_example ''abc123'' payload_text OPEN submitted_world)))) \<noteq>
     [ImageUrl ''abc123'' (JStr ''http://x/y.png'')]"
  using onmessage_payload(1) [of payload_text JSON_parse_example
      "JObj [(''image_url'', JStr ''http://x/y.png'')]" "''abc123''" OPEN submitted_world]
    onmessage_error(1) [of error_text JSON_parse_example
      "JObj [(''status'', JStr ''error''), (''message'', JStr ''OOM'')]" "''abc123''" OPEN
      "snd (onmessage JSON_parse_example ''abc123'' payload_text OPEN submitted_world)"]
  by (simp add: submitted_world_store JSON_parse_example_simps js_or_def)

text \<open>
  C6. A push message whose \<^verbatim>\<open>image_url\<close> is truthy, on an open socket: the handler
  (1) installs the success entry and deletes the loading entry, (2) then sends the
  acknowledgment with type \<^verbatim>\<open>acknowledgment\<close>, the request id and status
  \<^verbatim>\<open>received\<close>, (3) then schedules, 500 ms later, a callback that closes the socket
  with code 1000 if it is still open and does nothing otherwise. The handler itself leaves
  the socket open.
\<close>

theorem payload_delivery_sequence:
  assumes "event_data \<noteq> ''pong''" "event_data \<noteq> ''server_ping''"
    and "JSON_parse event_data = Some data" "truthy (get_prop data ''image_url'')"
  shows
    "fst (onmessage JSON_parse requestId event_data OPEN w) = OPEN
     \<and> trace (snd (onmessage JSON_parse requestId event_data OPEN w)) =
         trace w @
         [ConsoleLog, ConsoleLog, SetImages, SetLoadingImages,
          WsSend requestId
            (Json (JObj [(''type'', JStr ''acknowledgment''), (''request_id'', JStr requestId),
                         (''status'', JStr ''received'')])),
          ConsoleLog,
          SetTimeout 500
            (CloseIfOpen requestId (Some 1000) (Some ''Image received successfully''))]
     \<and> images (snd (onmessage JSON_parse requestId event_data OPEN w)) =
         filter (\<lambda>img. image_id img \<noteq> requestId) (images w)
           @ [ImageUrl requestId (get_prop data ''image_url'')]
     \<and> loadingImages (snd (onmessage JSON_parse requestId event_data OPEN w)) =
         AList.delete requestId (loadingImages w)
     \<and> requestId \<notin> fst ` set (loadingImages (snd (onmessage JSON_parse requestId event_data OPEN w)))
     \<and> run_timer (CloseIfOpen requestId (Some 1000) (Some ''Image received successfully'')) ws' w' =
         (if ws' = OPEN
          then (CLOSING,
                emit (WsClose requestId (Some 1000) (Some ''Image received successfully'')) w')
          else (ws', w'))"
proof -
  have n: "\<not> nullish data"
    using assms(4) by (rule truthy_not_nullish)
  have t: "onmessage JSON_parse requestId event_data OPEN w =
      (OPEN,
       setTimeout 500 (CloseIfOpen requestId (Some 1000) (Some ''Image received successfully''))
         (console_log
            (emit (WsSend requestId (acknowledgment requestId ''received''))
               (applyResult (ImageUrl requestId (get_prop data ''image_url''))
                  (console_log (console_log w))))))"
    using assms n by (simp add: onmessage_def onmessage_try_def Let_def)
  have r: "run_timer (CloseIfOpen requestId (Some 1000) (Some ''Image received successfully'')) ws' w' =
         (if ws' = OPEN
          then (CLOSING,
                emit (WsClose requestId (Some 1000) (Some ''Image received successfully'')) w')
          else (ws', w'))"
    by (simp add: ws_close_def)
  have d: "requestId \<notin> fst ` set (AList.delete requestId (loadingImages w))"
    by (rule AList.delete_notin_dom)
  show ?thesis
    unfolding t using r d by (simp add: acknowledgment_def)
qed

theorem payload_delivery_sequence_witness:
  "trace (snd (onmessage JSON_parse_example ''abc123'' payload_text OPEN submitted_world)) =
     trace submitted_world @
     [ConsoleLog, ConsoleLog, SetImages, SetLoadingImages,
      WsSend ''abc123''
        (Json (JObj [(''type'', JStr ''acknowledgment''), (''request_id'', JStr ''abc123''),
                     (''status'', JStr ''received'')])),
      ConsoleLog,
      SetTimeout 500 (CloseIfOpen ''abc123'' (Some 1000) (Some ''Image received successfully''))]
   \<and> images (snd (onmessage JSON_parse_example ''abc123'' payload_text OPEN submitted_world)) =
       [ImageUrl ''abc123'' (JStr ''http://x/y.png'')]
   \<and> loadingImages (snd (onmessage JSON_parse_example ''abc123'' payload_text OPEN submitted_world)) = []
   \<and> fst (run_timer (CloseIfOpen ''abc123'' (Some 1000) (Some ''Image received successfully''))
        OPEN initial_world) = CLOSING
   \<and> trace (snd (run_timer (CloseIfOpen ''abc123'' (Some 1000) (Some ''Image received successfully''))
        OPEN initial_world)) = [WsClose ''abc123'' (Some 1000) (Some ''Image received successfully'')]"
  using payload_delivery_sequence [of payload_text JSON_parse_example
      "JObj [(''image_url'', JStr ''http://x/y.png'')]" "''abc123''" submitted_world OPEN initial_world]
  by (simp add: submitted_world_store JSON_parse_example_simps initial_world_def)

text \<open>
  C10. A status response \<^verbatim>\<open>completed\<close> whose \<^verbatim>\<open>result\<close> is missing or falsy is
  neither a success nor an error: the poll body and the reply to an \<^verbatim>\<open>already_sent\<close>
  query leave the result list and the loading set as they are, and a job that was stale
  is selected again at any later tick.
\<close>

theorem completed_without_result:
  assumes "get_prop statusData ''status'' = JStr ''completed''"
    and "\<not> truthy (get_prop statusData ''result'')"
  shows
    "images (poll_one reqId (Response ok (Some statusData)) w) = images w
     \<and> loadingImages (poll_one reqId (Response ok (Some statusData)) w) = loadingImages w
     \<and> trace (poll_one reqId (Response ok (Some statusData)) w) =
         trace w @ [ConsoleLog, HttpGet (status_url reqId)]
     \<and> already_sent_reply reqId (Response ok (Some statusData)) w = w
     \<and> (reqId \<in> set (staleRequestIds now (loadingImages w)) \<and> now \<le> now' \<longrightarrow>
          reqId \<in> set (staleRequestIds now'
            (loadingImages (poll_one reqId (Response ok (Some statusData)) w))))"
proof -
  have n: "\<not> nullish statusData"
    using assms(1) by (rule status_not_nullish)
  have p: "poll_one reqId (Response ok (Some statusData)) w =
           emit (HttpGet (status_url reqId)) (console_log w)"
    using assms n by (simp add: poll_one_def poll_try_def Let_def)
  have a: "already_sent_reply reqId (Response ok (Some statusData)) w = w"
    using assms n by (simp add: already_sent_reply_def)
  have s: "reqId \<in> set (staleRequestIds now' (loadingImages w))"
    if "reqId \<in> set (staleRequestIds now (loadingImages w))" "now \<le> now'"
    using that by (force simp: staleRequestIds_def)
  show ?thesis
    unfolding p a using s by simp
qed

theorem completed_without_result_witness:
  "images (poll_one ''abc123'' status_completed_empty submitted_world) = []
   \<and> loadingImages (poll_one ''abc123'' status_completed_empty submitted_world) = [(''abc123'', 0)]
   \<and> already_sent_reply ''abc123'' status_completed_empty submitted_world = submitted_world
   \<and> ''abc123'' \<in> set (staleRequestIds 13000 (loadingImages submitted_world))
   \<and> ''abc123'' \<in> set (staleRequestIds 16000
        (loadingImages (poll_one ''abc123'' status_completed_empty submitted_world)))"
  using completed_without_result [of "JObj [(''status'', JStr ''completed''), (''result'', JStr [])]"
      "''abc123''" True submitted_world 13000 16000]
  by (simp add: status_completed_empty_def submitted_world_store staleRequestIds_def)

text \<open>
  C4, as the code has it. On an \<^verbatim>\<open>already_sent\<close> notice the handler issues exactly
  one status query and closes the socket, without touching the store. When the query is
  answered with a response that is ok: a reply \<^verbatim>\<open>completed\<close> with a truthy
  \<^verbatim>\<open>result\<close> installs the success entry and deletes the loading entry, as the poller
  does with the same response; any other such reply, an error response included, changes
  neither the result list nor the loading set, so the job stays loading and is left to
  the poller. A query that is rejected, or whose answer cannot be decoded, changes neither.
  Nothing is said here of a response that is not ok.
\<close>

theorem already_sent_handoff:
  assumes "event_data \<noteq> ''pong''" "event_data \<noteq> ''server_ping''"
    and "JSON_parse event_data = Some data" "\<not> truthy (get_prop data ''image_url'')"
    and "get_prop data ''status'' = JStr ''already_sent''"
  shows
    "trace (snd (onmessage JSON_parse requestId event_data ws w)) =
       trace w @ [ConsoleLog, ConsoleLog, HttpGet (status_url requestId)]
         @ (if ws = CONNECTING \<or> ws = OPEN then [WsClose requestId None None] else [])
     \<and> http_gets (trace (snd (onmessage JSON_parse requestId event_data ws w))) =
         http_gets (trace w) @ [status_url requestId]
     \<and> fst (onmessage JSON_parse requestId event_data ws w) =
         (if ws = CLOSED then CLOSED else CLOSING)
     \<and> images (snd (onmessage JSON_parse requestId event_data ws w)) = images w
     \<and> loadingImages (snd (onmessage JSON_parse requestId event_data ws w)) = loadingImages w
     \<and> (get_prop statusData ''status'' = JStr ''completed''
          \<and> truthy (get_prop statusData ''result'') \<longrightarrow>
        images (already_sent_reply requestId (Response True (Some statusData)) w') =
          filter (\<lambda>img. image_id img \<noteq> requestId) (images w')
            @ [ImageUrl requestId (get_prop statusData ''result'')]
        \<and> loadingImages (already_sent_reply requestId (Response True (Some statusData)) w') =
            AList.delete requestId (loadingImages w')
        \<and> requestId \<notin> fst ` set
            (loadingImages (already_sent_reply requestId (Response True (Some statusData)) w'))
        \<and> images (poll_one requestId (Response True (Some statusData)) w') =
            images (already_sent_reply requestId (Response True (Some statusData)) w')
        \<and> loadingImages (poll_one requestId (Response True (Some statusData)) w') =
            loadingImages (already_sent_reply requestId (Response True (Some statusData)) w'))
     \<and> (h = Rejected \<or> h = Response True None
          \<or> (\<exists>body. h = Response True (Some body)
                \<and> \<not> (get_prop body ''status'' = JStr ''completed''
                       \<and> truthy (get_prop body ''result''))) \<longrightarrow>
        images (already_sent_reply requestId h w') = images w'
        \<and> loadingImages (already_sent_reply requestId h w') = loadingImages w')"
proof -
  have n: "\<not> nullish data"
    using assms(5) by (rule status_not_nullish)
  have t: "onmessage JSON_parse requestId event_data ws w =
      ws_close requestId None None ws
        (emit (HttpGet (status_url requestId)) (console_log (console_log w)))"
    using assms n
    by (simp add: onmessage_def onmessage_try_def Let_def split: prod.splits)
  have h1: "trace (snd (onmessage JSON_parse requestId event_data ws w)) =
       trace w @ [ConsoleLog, ConsoleLog, HttpGet (status_url requestId)]
         @ (if ws = CONNECTING \<or> ws = OPEN then [WsClose requestId None None] else [])"
    unfolding t by (cases ws) (simp_all add: ws_close_def)
  have h2: "http_gets (trace (snd (onmessage JSON_parse requestId event_data ws w))) =
         http_gets (trace w) @ [status_url requestId]"
    unfolding h1 by simp
  have h3: "fst (onmessage JSON_parse requestId event_data ws w) =
         (if ws = CLOSED then CLOSED else CLOSING)"
    unfolding t by (cases ws) (simp_all add: ws_close_def)
  have h4: "images (snd (onmessage JSON_parse requestId event_data ws w)) = images w"
    "loadingImages (snd (onmessage JSON_parse requestId event_data ws w)) = loadingImages w"
    unfolding t by simp_all
  have h5: "images (already_sent_reply requestId (Response True (Some statusData)) w') =
          filter (\<lambda>img. image_id img \<noteq> requestId) (images w')
            @ [ImageUrl requestId (get_prop statusData ''result'')]
        \<and> loadingImages (already_sent_reply requestId (Response True (Some statusData)) w') =
            AList.delete requestId (loadingImages w')
        \<and> requestId \<notin> fst ` set
            (loadingImages (already_sent_reply requestId (Response True (Some statusData)) w'))
        \<and> images (poll_one requestId (Response True (Some statusData)) w') =
            images (already_sent_reply requestId (Response True (Some statusData)) w')
        \<and> loadingImages (poll_one requestId (Response True (Some statusData)) w') =
            loadingImages (already_sent_reply requestId (Response True (Some statusData)) w')"
    if "get_prop statusData ''status'' = JStr ''completed''" "truthy (get_prop statusData ''result'')"
    using AList.delete_notin_dom [of requestId "loadingImages w'"]
    by (simp add: already_sent_reply_completed [OF that] poll_one_completed [OF that])
  have h6: "images (already_sent_reply requestId h w') = images w'
        \<and> loadingImages (already_sent_reply requestId h w') = loadingImages w'"
    if "h = Rejected \<or> h = Response True None
          \<or> (\<exists>body. h = Response True (Some body)
                \<and> \<not> (get_prop body ''status'' = JStr ''completed''
                       \<and> truthy (get_prop body ''result'')))"
  proof -
    from that have "\<forall>ok statusData. h = Response ok (Some statusData) \<longrightarrow>
            \<not> (get_prop statusData ''status'' = JStr ''completed''
               \<and> truthy (get_prop statusData ''result''))"
      by auto
    then show ?thesis
      using already_sent_reply_other [of h requestId w'] by simp
  qed
  from h1 h2 h3 h4 h5 h6 show ?thesis by blast
qed

theorem already_sent_handoff_witness:
  "http_gets (trace (snd (onmessage JSON_parse_example ''abc123'' already_sent_text OPEN submitted_world))) =
     http_gets (trace submitted_world) @ [''http://127.0.0.1:8888/status/12345/abc123'']
   \<and> fst (onmessage JSON_parse_example ''abc123'' already_sent_text OPEN submitted_world) = CLOSING
   \<and> images (already_sent_reply ''abc123'' status_completed submitted_world) =
       [ImageUrl ''abc123'' (JStr ''http://x/y.png'')]
   \<and> loadingImages (already_sent_reply ''abc123'' status_completed submitted_world) = []
   \<and> images (poll_one ''abc123'' status_completed submitted_world) =
       [ImageUrl ''abc123'' (JStr ''http://x/y.png'')]
   \<and> loadingImages (poll_one ''abc123'' status_completed submitted_world) = []
   \<and> images (already_sent_reply ''abc123'' status_error_OOM submitted_world) = []
   \<and> loadingImages (already_sent_reply ''abc123'' status_error_OOM submitted_world) =
       [(''abc123'', 0)]"
  using already_sent_handoff [where event_data = already_sent_text
      and JSON_parse = JSON_parse_example
      and data = "JObj [(''status'', JStr ''already_sent'')]"
      and requestId = "''abc123''" and ws = OPEN and w = submitted_world
      and statusData = "JObj [(''status'', JStr ''completed''), (''result'', JStr ''http://x/y.png'')]"
      and w' = submitted_world and h = status_error_OOM]
  by (simp add: JSON_parse_example_simps submitted_world_store status_completed_def
        status_error_OOM_def status_url_def userId_def)

text \<open>
  C4 as stated fails: for job \<^verbatim>\<open>abc123\<close>, the error response that makes the poller
  install a failure entry leaves the store unchanged when it is the reply to the
  \<^verbatim>\<open>already_sent\<close> query.
\<close>

theorem already_sent_error_counterexample:
  "images (already_sent_reply ''abc123'' status_error_OOM submitted_world) = []
   \<and> loadingImages (already_sent_reply ''abc123'' status_error_OOM submitted_world) =
       [(''abc123'', 0)]
   \<and> images (poll_one ''abc123'' status_error_OOM submitted_world) =
       [ImageError ''abc123'' (JStr ''OOM'')]
   \<and> loadingImages (poll_one ''abc123'' status_error_OOM submitted_world) = []"
  by (simp add: status_error_OOM_def already_sent_reply_def poll_one_def poll_try_def Let_def
        js_or_def submitted_world_store)

end
